theory Spec2Isabelle
  imports Main "HOL-Library.Sublist"
begin

section \<open>Python string primitives used by the handler\<close>

text \<open>\<^verbatim>\<open>sub in s\<close> for strings: \<open>sub\<close> occurs as a contiguous block of \<open>s\<close>.\<close>

fun str_contains :: "string \<Rightarrow> string \<Rightarrow> bool" where
  "str_contains sub [] = (sub = [])"
| "str_contains sub (c # cs) = (prefix sub (c # cs) \<or> str_contains sub cs)"

text \<open>\<^verbatim>\<open>s.endswith(tuple)\<close>: some member of the tuple is a suffix of \<open>s\<close>.\<close>

definition endswith_any :: "string \<Rightarrow> string list \<Rightarrow> bool" where
  "endswith_any s sufs = list_ex (\<lambda>suf. suffix suf s) sufs"

text \<open>\<^verbatim>\<open>s.split(c, 1)\<close> when \<open>c\<close> occurs in \<open>s\<close>: the text before the first
  occurrence and the text after it.\<close>

definition split1 :: "char \<Rightarrow> string \<Rightarrow> string \<times> string" where
  "split1 c s = (takeWhile (\<lambda>x. x \<noteq> c) s, drop 1 (dropWhile (\<lambda>x. x \<noteq> c) s))"

text \<open>\<^verbatim>\<open>s.replace(old, "")\<close>: every non-overlapping occurrence of \<open>old\<close>, found from
  the left, is removed; an empty \<open>old\<close> leaves \<open>s\<close> as it is.\<close>

function str_remove :: "string \<Rightarrow> string \<Rightarrow> string" where
  "str_remove old [] = []"
| "str_remove old (c # cs) =
     (if old \<noteq> [] \<and> prefix old (c # cs)
      then str_remove old (drop (length old) (c # cs))
      else c # str_remove old cs)"
  by pat_completeness auto
termination
  by (relation "measure (\<lambda>(old, s). length s)") (auto simp: neq_Nil_conv)

text \<open>\<^verbatim>\<open>sep.join(xs)\<close>.\<close>

fun str_join :: "string \<Rightarrow> string list \<Rightarrow> string" where
  "str_join sep [] = []"
| "str_join sep [x] = x"
| "str_join sep (x # y # ys) = x @ sep @ str_join sep (y # ys)"

text \<open>\<^verbatim>\<open>s.split(c)\<close> without a limit: the pieces between the occurrences of \<open>c\<close>.\<close>

fun split_all :: "char \<Rightarrow> string \<Rightarrow> string list" where
  "split_all c [] = [[]]"
| "split_all c (x # xs) =
     (if x = c then [] # split_all c xs
      else (case split_all c xs of [] \<Rightarrow> [[x]] | p # ps \<Rightarrow> (x # p) # ps))"

section \<open>\<^verbatim>\<open>pathlib.Path\<close> on a POSIX host\<close>

text \<open>A pure POSIX path is a root marker and the list of its components. Parsing drops
  empty components and \<^verbatim>\<open>.\<close> components; exactly two leading slashes are kept as a root
  of their own, any other number of leading slashes is the root \<^verbatim>\<open>/\<close>.\<close>

datatype path_root = NoRoot | Slash | DoubleSlash

datatype path = Path path_root "string list"

fun root_str :: "path_root \<Rightarrow> string" where
  "root_str NoRoot = []"
| "root_str Slash = ''/''"
| "root_str DoubleSlash = ''//''"

definition parse_root :: "string \<Rightarrow> path_root" where
  "parse_root s =
     (if prefix ''//'' s \<and> \<not> prefix ''///'' s then DoubleSlash
      else if prefix ''/'' s then Slash else NoRoot)"

definition parse_parts :: "string \<Rightarrow> string list" where
  "parse_parts s = filter (\<lambda>p. p \<noteq> [] \<and> p \<noteq> ''.'') (split_all CHR ''/'' s)"

definition path_of :: "string \<Rightarrow> path" where
  "path_of s = Path (parse_root s) (parse_parts s)"

fun path_str :: "path \<Rightarrow> string" where
  "path_str (Path r ps) =
     (if r = NoRoot \<and> ps = [] then ''.'' else root_str r @ str_join ''/'' ps)"

text \<open>\<^verbatim>\<open>base / other\<close>: an absolute right operand replaces the left one.\<close>

fun path_join :: "path \<Rightarrow> path \<Rightarrow> path" where
  "path_join (Path r ps) (Path r' ps') =
     (if r' \<noteq> NoRoot then Path r' ps' else Path r (ps @ ps'))"

fun path_parent :: "path \<Rightarrow> path" where
  "path_parent (Path r ps) = Path r (butlast ps)"

section \<open>The handler, its collaborators and its errors\<close>

text \<open>What leaves the machine: a command run on a host, a file copied to a host, and the
  forced push of the local repository.\<close>

datatype remote_op =
    Exec string string
  | Put string string string
  | GitPush

datatype error =
    ValueError
  | AssertionError
  | GitPushError
  | SSHConnectError
  | SSHExecError
  | SCPPutError

text \<open>The fields of \<^verbatim>\<open>ScpGitEventHandler\<close>. An entry of \<open>ssh_clients\<close> records whether
  the cached client is connected: the client is stored before \<^verbatim>\<open>connect\<close> runs, so a failed
  connection leaves an unconnected client in the cache. \<open>sent\<close> is the history of
  operations issued so far.\<close>

record handler =
  host_directory :: string
  targets :: "string list"
  extensions :: "string list"
  ssh_clients :: "string \<Rightarrow> bool option"
  scp_clients :: "string set"
  dirs_exists_on_targets :: "string \<Rightarrow> string set"
  current_branch :: string
  ignore_everything :: bool
  sent :: "remote_op list"

text \<open>What the collaborators answer: the repository (active branch, result of the push,
  untracked files), the SSH layer (whether a host accepts the connection) and the SCP layer
  (whether an upload goes through).\<close>

record world =
  active_branch :: string
  push_ok :: bool
  untracked_files :: "string list"
  connect_ok :: "string \<Rightarrow> bool"
  put_ok :: "string \<Rightarrow> string \<Rightarrow> string \<Rightarrow> bool"

record event =
  src_path :: string
  dest_path :: string
  is_directory :: bool

type_synonym outcome = "error option \<times> handler"

text \<open>Sequencing of two steps: an exception raised by the first one ends the call, with
  the handler as the first step left it.\<close>

definition and_then :: "outcome \<Rightarrow> (handler \<Rightarrow> outcome) \<Rightarrow> outcome" where
  "and_then r f = (case r of (Some e, h) \<Rightarrow> (Some e, h) | (None, h) \<Rightarrow> f h)"

definition FileCreatedEvent :: "string \<Rightarrow> event" where
  "FileCreatedEvent p = \<lparr>src_path = p, dest_path = [], is_directory = False\<rparr>"

definition FileDeletedEvent :: "string \<Rightarrow> event" where
  "FileDeletedEvent p = \<lparr>src_path = p, dest_path = [], is_directory = False\<rparr>"

section \<open>Connections\<close>

text \<open>\<^verbatim>\<open>_get_ssh_client\<close>: a cached client is returned as it is; otherwise a new client
  is stored first and connected afterwards.\<close>

definition get_ssh_client :: "world \<Rightarrow> string \<Rightarrow> handler \<Rightarrow> outcome" where
  "get_ssh_client w domain h =
     (case ssh_clients h domain of
        Some client \<Rightarrow> (None, h)
      | None \<Rightarrow>
          (let h' = h\<lparr>ssh_clients := (ssh_clients h)(domain \<mapsto> connect_ok w domain)\<rparr>
           in if connect_ok w domain then (None, h') else (Some SSHConnectError, h')))"

text \<open>\<^verbatim>\<open>exec_command\<close> on the client cached for a host: it is sent when that client is
  connected and raises otherwise.\<close>

definition exec_command :: "string \<Rightarrow> string \<Rightarrow> handler \<Rightarrow> outcome" where
  "exec_command domain command h =
     (if ssh_clients h domain = Some True
      then (None, h\<lparr>sent := sent h @ [Exec domain command]\<rparr>)
      else (Some SSHExecError, h))"

text \<open>\<^verbatim>\<open>_get_scp_client\<close>: the transport of an unconnected client is \<^verbatim>\<open>None\<close>, which the
  assertion rejects.\<close>

definition get_scp_client :: "world \<Rightarrow> string \<Rightarrow> handler \<Rightarrow> outcome" where
  "get_scp_client w domain h =
     (if domain \<in> scp_clients h then (None, h)
      else and_then (get_ssh_client w domain h) (\<lambda>h1.
             if ssh_clients h1 domain = Some True
             then (None, h1\<lparr>scp_clients := insert domain (scp_clients h1)\<rparr>)
             else (Some AssertionError, h1)))"

definition scp_put :: "world \<Rightarrow> string \<Rightarrow> string \<Rightarrow> string \<Rightarrow> handler \<Rightarrow> outcome" where
  "scp_put w domain src dst h =
     (if put_ok w domain src dst
      then (None, h\<lparr>sent := sent h @ [Put domain src dst]\<rparr>)
      else (Some SCPPutError, h))"

section \<open>Target descriptors and path mapping\<close>

text \<open>The second half of the parsing, shared by all four loops: an optional user before
  \<^verbatim>\<open>@\<close>.\<close>

definition split_user :: "string \<Rightarrow> string option \<times> string" where
  "split_user user_and_domain =
     (if CHR ''@'' \<in> set user_and_domain
      then (Some (fst (split1 CHR ''@'' user_and_domain)), snd (split1 CHR ''@'' user_and_domain))
      else (None, user_and_domain))"

text \<open>The parsing at the head of the loops of \<^verbatim>\<open>_ssh_cmd\<close>, \<^verbatim>\<open>ssh_mkdir\<close> and
  \<^verbatim>\<open>_scp_file\<close>: user, host and remote root.\<close>

definition parse_target :: "string \<Rightarrow> string option \<times> string \<times> string" where
  "parse_target target =
     (let (user_and_domain, host_parent_dir) =
            (if CHR '':'' \<in> set target then split1 CHR '':'' target
             else (''titan@localhost'', target));
          (user, domain) = split_user user_and_domain
      in (user, domain, host_parent_dir))"

text \<open>The parsing at the head of the loop of \<^verbatim>\<open>_ssh_rm\<close>: the result of the split is
  unpacked into two names without a test for the separator.\<close>

definition parse_target_rm :: "string \<Rightarrow> error + (string option \<times> string \<times> string)" where
  "parse_target_rm target =
     (if CHR '':'' \<in> set target
      then (let (user_and_domain, host_parent_dir) = split1 CHR '':'' target;
                (user, domain) = split_user user_and_domain
            in Inr (user, domain, host_parent_dir))
      else Inl ValueError)"

text \<open>\<^verbatim>\<open>if user:\<close> holds for a user that is present and not the empty string.\<close>

definition truthy :: "string option \<Rightarrow> bool" where
  "truthy user = (user \<noteq> None \<and> user \<noteq> Some [])"

definition sudo_wrap :: "string \<Rightarrow> string \<Rightarrow> string" where
  "sudo_wrap user command = ''sudo su '' @ user @ '' bash -c \"'' @ command @ ''\"''"

text \<open>\<^verbatim>\<open>if user: exec_command(sudo ...)\<close>.\<close>

definition exec_sudo :: "string option \<Rightarrow> string \<Rightarrow> string \<Rightarrow> handler \<Rightarrow> outcome" where
  "exec_sudo user domain command h =
     (case user of
        Some u \<Rightarrow> if truthy user then exec_command domain (sudo_wrap u command) h else (None, h)
      | None \<Rightarrow> (None, h))"

text \<open>The two lines that every file operation repeats: the watch root is replaced away in
  the local path, and the rest is joined onto the remote root.\<close>

definition relative_src_path :: "handler \<Rightarrow> string \<Rightarrow> string" where
  "relative_src_path h src = str_remove (host_directory h) src"

definition target_path :: "handler \<Rightarrow> string \<Rightarrow> string \<Rightarrow> string" where
  "target_path h host_parent_dir src =
     path_str (path_join (path_of host_parent_dir) (path_of (relative_src_path h src)))"

text \<open>The tail of the loops: the command once under the user when there is one, and once
  as it is.\<close>

definition exec_as :: "string option \<Rightarrow> string \<Rightarrow> string \<Rightarrow> handler \<Rightarrow> outcome" where
  "exec_as user domain command h =
     and_then (exec_sudo user domain command h) (exec_command domain command)"

section \<open>Remote operations, fanned out over the targets\<close>

text \<open>\<^verbatim>\<open>_ssh_cmd\<close>: the loop assigns the prefixed command back to \<^verbatim>\<open>command\<close>, so the
  next round starts from the command of this round.\<close>

fun ssh_cmd_loop :: "world \<Rightarrow> string list \<Rightarrow> string \<Rightarrow> handler \<Rightarrow> outcome" where
  "ssh_cmd_loop w [] command h = (None, h)"
| "ssh_cmd_loop w (target # rest) command h =
     (let (user, domain, host_parent_dir) = parse_target target;
          command' = ''cd '' @ host_parent_dir @ '' && '' @ command
      in and_then (get_ssh_client w domain h) (\<lambda>h1.
         and_then (exec_as user domain command' h1) (\<lambda>h2.
         ssh_cmd_loop w rest command' h2)))"

definition ssh_cmd :: "world \<Rightarrow> string \<Rightarrow> handler \<Rightarrow> outcome" where
  "ssh_cmd w command h = ssh_cmd_loop w (targets h) command h"

text \<open>\<^verbatim>\<open>_ssh_rm\<close>.\<close>

fun ssh_rm_loop :: "world \<Rightarrow> string list \<Rightarrow> event \<Rightarrow> handler \<Rightarrow> outcome" where
  "ssh_rm_loop w [] ev h = (None, h)"
| "ssh_rm_loop w (target # rest) ev h =
     (case parse_target_rm target of
        Inl e \<Rightarrow> (Some e, h)
      | Inr (user, domain, host_parent_dir) \<Rightarrow>
          and_then (get_ssh_client w domain h) (\<lambda>h1.
          and_then (exec_as user domain
                      (''rm -'' @ (if is_directory ev then ''r'' else []) @ ''f ''
                         @ target_path h host_parent_dir (src_path ev)) h1) (\<lambda>h2.
          ssh_rm_loop w rest ev h2)))"

definition ssh_rm :: "world \<Rightarrow> event \<Rightarrow> handler \<Rightarrow> outcome" where
  "ssh_rm w ev h = ssh_rm_loop w (targets h) ev h"

text \<open>\<^verbatim>\<open>ssh_mkdir\<close> takes an event or a plain string.\<close>

datatype mkdir_arg = OfEvent event | OfStr string

fun mkdir_src :: "mkdir_arg \<Rightarrow> string" where
  "mkdir_src (OfEvent ev) = src_path ev"
| "mkdir_src (OfStr s) = s"

fun mkdir_arg_ok :: "mkdir_arg \<Rightarrow> bool" where
  "mkdir_arg_ok (OfEvent ev) = is_directory ev"
| "mkdir_arg_ok (OfStr s) = True"

fun ssh_mkdir_loop :: "world \<Rightarrow> string list \<Rightarrow> string \<Rightarrow> handler \<Rightarrow> outcome" where
  "ssh_mkdir_loop w [] src h = (None, h)"
| "ssh_mkdir_loop w (target # rest) src h =
     (let (user, domain, host_parent_dir) = parse_target target
      in and_then (get_ssh_client w domain h) (\<lambda>h1.
         and_then (exec_as user domain
                     (''mkdir -p '' @ target_path h host_parent_dir src) h1) (\<lambda>h2.
         ssh_mkdir_loop w rest src h2)))"

definition ssh_mkdir :: "world \<Rightarrow> mkdir_arg \<Rightarrow> handler \<Rightarrow> outcome" where
  "ssh_mkdir w arg h =
     (if mkdir_arg_ok arg then ssh_mkdir_loop w (targets h) (mkdir_src arg) h
      else (Some AssertionError, h))"

section \<open>The directory presence cache\<close>

text \<open>The test of the marking loop: something is left of the string once every dot and
  every slash is taken out.\<close>

definition has_name_chars :: "string \<Rightarrow> bool" where
  "has_name_chars s = (str_remove ''/'' (str_remove ''.'' s) \<noteq> [])"

function mark_present :: "string \<Rightarrow> path \<Rightarrow> path \<Rightarrow> handler \<Rightarrow> handler" where
  "mark_present domain base relative h =
     (if has_name_chars (path_str relative)
      then mark_present domain base (path_parent relative)
             (h\<lparr>dirs_exists_on_targets := (dirs_exists_on_targets h)
                  (domain := insert (path_str (path_join base relative))
                               (dirs_exists_on_targets h domain))\<rparr>)
      else h)"
  by pat_completeness auto
termination
proof (relation "measure (\<lambda>(domain, base, relative, h). case relative of Path r ps \<Rightarrow> length ps)")
  show "wf (measure (\<lambda>(domain, base, relative, h). case relative of Path r ps \<Rightarrow> length ps))"
    by simp
next
  fix domain :: string and base relative :: path and h :: handler
  assume c: "has_name_chars (path_str relative)"
  obtain r ps where rel: "relative = Path r ps" by (cases relative)
  have "\<not> has_name_chars (path_str (Path r []))"
    by (cases r) (simp_all add: has_name_chars_def)
  with c rel have "ps \<noteq> []" by auto
  with rel show "((domain, base, path_parent relative,
                   h\<lparr>dirs_exists_on_targets := (dirs_exists_on_targets h)
                      (domain := insert (path_str (path_join base relative))
                                   (dirs_exists_on_targets h domain))\<rparr>),
                  (domain, base, relative, h))
                 \<in> measure (\<lambda>(domain, base, relative, h). case relative of Path r ps \<Rightarrow> length ps)"
    by simp
qed

text \<open>\<^verbatim>\<open>_create_parent_dir_if_necessary\<close>.\<close>

definition create_parent_dir_if_necessary ::
  "world \<Rightarrow> string \<Rightarrow> path \<Rightarrow> path \<Rightarrow> handler \<Rightarrow> outcome" where
  "create_parent_dir_if_necessary w domain base relative h =
     (if path_str (path_join base relative) \<in> dirs_exists_on_targets h domain then (None, h)
      else and_then (ssh_mkdir w (OfStr (path_str relative)) h) (\<lambda>h1.
             (None, mark_present domain base relative h1)))"

section \<open>Upload\<close>

text \<open>\<^verbatim>\<open>_scp_file\<close>.\<close>

fun scp_file_loop :: "world \<Rightarrow> string list \<Rightarrow> event \<Rightarrow> handler \<Rightarrow> outcome" where
  "scp_file_loop w [] ev h = (None, h)"
| "scp_file_loop w (target # rest) ev h =
     (let (user, domain, host_parent_dir) = parse_target target;
          tp = target_path h host_parent_dir (src_path ev)
      in and_then (get_scp_client w domain h) (\<lambda>h1.
         and_then (create_parent_dir_if_necessary w domain (path_of host_parent_dir)
                     (path_parent (path_of (relative_src_path h (src_path ev)))) h1) (\<lambda>h2.
         and_then (if truthy user
                   then and_then (get_ssh_client w domain h2)
                          (exec_sudo user domain (''chmod g+w '' @ tp))
                   else (None, h2)) (\<lambda>h3.
         and_then (scp_put w domain (src_path ev) tp h3) (\<lambda>h4.
         and_then (if suffix ''.sh'' tp
                   then and_then (get_ssh_client w domain h4)
                          (exec_command domain (''chmod +x '' @ tp))
                   else (None, h4)) (\<lambda>h5.
         scp_file_loop w rest ev h5))))))"

definition scp_file :: "world \<Rightarrow> event \<Rightarrow> handler \<Rightarrow> outcome" where
  "scp_file w ev h =
     (if is_directory ev then (Some AssertionError, h)
      else scp_file_loop w (targets h) ev h)"

section \<open>The event handlers\<close>

definition is_git_path :: "event \<Rightarrow> bool" where
  "is_git_path ev = str_contains ''.git'' (src_path ev)"

text \<open>\<^verbatim>\<open>_on_git_event\<close> returns at once.\<close>

definition on_git_event :: "event \<Rightarrow> handler \<Rightarrow> handler" where
  "on_git_event ev h = h"

definition is_bad_path :: "handler \<Rightarrow> event \<Rightarrow> bool" where
  "is_bad_path h ev =
     (\<not> endswith_any (src_path ev) (extensions h)
      \<or> str_contains ''.pyc'' (src_path ev)
      \<or> str_contains ''.env/'' (src_path ev)
      \<or> str_contains ''__pycache__'' (src_path ev)
      \<or> str_contains ''.egg'' (src_path ev))"

text \<open>The opening lines shared by the four handlers.\<close>

definition git_hook :: "event \<Rightarrow> handler \<Rightarrow> handler" where
  "git_hook ev h = (if is_git_path ev then on_git_event ev h else h)"

definition skipped :: "handler \<Rightarrow> event \<Rightarrow> bool" where
  "skipped h ev = (is_bad_path h ev \<or> ignore_everything h)"

definition on_created :: "world \<Rightarrow> event \<Rightarrow> handler \<Rightarrow> outcome" where
  "on_created w ev h0 =
     (let h = git_hook ev h0
      in if skipped h ev then (None, h)
         else if is_directory ev then ssh_mkdir w (OfEvent ev) h
         else scp_file w ev h)"

definition on_deleted :: "world \<Rightarrow> event \<Rightarrow> handler \<Rightarrow> outcome" where
  "on_deleted w ev h0 =
     (let h = git_hook ev h0
      in if skipped h ev then (None, h)
         else ssh_rm w ev h)"

definition on_modified :: "world \<Rightarrow> event \<Rightarrow> handler \<Rightarrow> outcome" where
  "on_modified w ev h0 =
     (let h = git_hook ev h0
      in if skipped h ev then (None, h)
         else if \<not> is_directory ev then scp_file w ev h
         else (None, h))"

definition on_moved :: "world \<Rightarrow> event \<Rightarrow> handler \<Rightarrow> outcome" where
  "on_moved w ev h0 =
     (let h = git_hook ev h0
      in if skipped h ev then (None, h)
         else and_then (on_deleted w (FileDeletedEvent (src_path ev)) h)
                (on_created w (FileCreatedEvent (dest_path ev))))"

text \<open>The watch collaborator hands each notification to the handler of its kind.\<close>

datatype event_kind = Created | Modified | Deleted | Moved

fun dispatch :: "world \<Rightarrow> event_kind \<Rightarrow> event \<Rightarrow> handler \<Rightarrow> outcome" where
  "dispatch w Created ev h = on_created w ev h"
| "dispatch w Modified ev h = on_modified w ev h"
| "dispatch w Deleted ev h = on_deleted w ev h"
| "dispatch w Moved ev h = on_moved w ev h"

section \<open>Branch reconciliation\<close>

definition reset_command :: "string \<Rightarrow> string" where
  "reset_command branch =
     str_join '' && ''
       [''git fetch --all'',
        ''git stash'',
        ''git checkout '' @ branch,
        ''git reset --hard origin/'' @ branch,
        ''git clean -f'']"

text \<open>The loop over the untracked files.\<close>

fun upload_untracked :: "world \<Rightarrow> string list \<Rightarrow> handler \<Rightarrow> outcome" where
  "upload_untracked w [] h = (None, h)"
| "upload_untracked w (f # fs) h =
     and_then (scp_file w (FileCreatedEvent f) h) (upload_untracked w fs)"

text \<open>\<^verbatim>\<open>reset_targets\<close>. \<^verbatim>\<open>raise_if_error\<close> raises after the push was attempted.\<close>

definition reset_targets :: "world \<Rightarrow> handler \<Rightarrow> outcome" where
  "reset_targets w h =
     (if active_branch w \<noteq> current_branch h
      then (let h1 = h\<lparr>ignore_everything := True\<rparr>;
                h2 = h1\<lparr>sent := sent h1 @ [GitPush]\<rparr>
            in if \<not> push_ok w then (Some GitPushError, h2)
               else and_then (ssh_cmd w (reset_command (active_branch w)) h2) (\<lambda>h3.
                    and_then (upload_untracked w (untracked_files w) h3) (\<lambda>h4.
                    (None, h4\<lparr>ignore_everything := False,
                               current_branch := active_branch w\<rparr>))))
      else (None, h))"

section \<open>A concrete handler and a concrete world\<close>

text \<open>Watch root \<^verbatim>\<open>/w/\<close>, one target \<^verbatim>\<open>h:/r/\<close>, nothing connected or cached yet, last
  reconciled branch \<^verbatim>\<open>dev\<close>; a repository on branch \<^verbatim>\<open>main\<close> with one untracked file
  and collaborators that accept everything.\<close>

definition demo_handler :: handler where
  "demo_handler = \<lparr>host_directory = ''/w/'', targets = [''h:/r/''],
     extensions = [''py'', ''txt'', ''sh''],
     ssh_clients = (\<lambda>_. None), scp_clients = {}, dirs_exists_on_targets = (\<lambda>_. {}),
     current_branch = ''dev'', ignore_everything = False, sent = []\<rparr>"

definition demo_world :: world where
  "demo_world = \<lparr>active_branch = ''main'', push_ok = True, untracked_files = [''u.txt''],
     connect_ok = (\<lambda>_. True), put_ok = (\<lambda>_ _ _. True)\<rparr>"

section \<open>Sequencing\<close>


lemma and_then_simps [simp]:
  "and_then (None, h) f = f h"
  "and_then (Some e, h) f = (Some e, h)"
  by (simp_all add: and_then_def)

section \<open>Event classification under suppression\<close>

text \<open>C8. While \<open>ignore_everything\<close> is set, a notification of any of the four kinds is
  rejected: the handler returns without an error and leaves every field, the history of
  issued operations included, as it was.\<close>

theorem suppressed_events_rejected:
  "ignore_everything h \<Longrightarrow> dispatch w k ev h = (None, h)"
  by (cases k)
     (simp_all add: on_created_def on_modified_def on_deleted_def on_moved_def
        git_hook_def on_git_event_def skipped_def)

theorem suppressed_events_rejected_witness:
  "ignore_everything (demo_handler\<lparr>ignore_everything := True\<rparr>)
   \<and> dispatch demo_world Moved
        \<lparr>src_path = ''/w/a.py'', dest_path = ''/w/b.py'', is_directory = False\<rparr>
        (demo_handler\<lparr>ignore_everything := True\<rparr>)
      = (None, demo_handler\<lparr>ignore_everything := True\<rparr>)"
  using suppressed_events_rejected [of "demo_handler\<lparr>ignore_everything := True\<rparr>" demo_world Moved
      "\<lparr>src_path = ''/w/a.py'', dest_path = ''/w/b.py'', is_directory = False\<rparr>"]
  by simp

section \<open>Branch reconciliation: failure of the push and repeated calls\<close>

text \<open>C1, as the specification states it, fails: with the branch changed and the push
  refused, the call ends with \<open>ignore_everything\<close> still set.\<close>

theorem push_failure_flag_counterexample:
  "active_branch (demo_world\<lparr>push_ok := False\<rparr>) \<noteq> current_branch demo_handler
   \<and> \<not> push_ok (demo_world\<lparr>push_ok := False\<rparr>)
   \<and> ignore_everything (snd (reset_targets (demo_world\<lparr>push_ok := False\<rparr>) demo_handler))"
  by (simp add: reset_targets_def demo_world_def demo_handler_def Let_def)

text \<open>C1, amended. When the active branch differs from the last reconciled one and the
  push fails, \<open>reset_targets\<close> raises the push error; the only operation issued is the
  push itself, so no target receives a command or a file; the last reconciled branch, the
  connections and the presence cache are untouched, and \<open>ignore_everything\<close> stays
  set.\<close>

theorem push_failure_leaves_flag_raised:
  "active_branch w \<noteq> current_branch h \<Longrightarrow> \<not> push_ok w \<Longrightarrow>
   reset_targets w h =
     (Some GitPushError, h\<lparr>ignore_everything := True, sent := sent h @ [GitPush]\<rparr>)"
  by (simp add: reset_targets_def Let_def)

theorem push_failure_leaves_flag_raised_witness:
  "active_branch (demo_world\<lparr>push_ok := False\<rparr>) \<noteq> current_branch demo_handler
   \<and> \<not> push_ok (demo_world\<lparr>push_ok := False\<rparr>)
   \<and> reset_targets (demo_world\<lparr>push_ok := False\<rparr>) demo_handler =
     (Some GitPushError,
      demo_handler\<lparr>ignore_everything := True, sent := sent demo_handler @ [GitPush]\<rparr>)"
  using push_failure_leaves_flag_raised [of "demo_world\<lparr>push_ok := False\<rparr>" demo_handler]
  by (simp add: demo_world_def demo_handler_def)




section \<open>Target descriptors\<close>









section \<open>Which errors the operations can raise\<close>

lemma and_then_error:
  "fst (and_then r f) = Some e \<longleftrightarrow>
     fst r = Some e \<or> (\<exists>h1. r = (None, h1) \<and> fst (f h1) = Some e)"
  by (cases r) (auto simp: and_then_def split: option.splits)

lemma get_ssh_client_not_ValueError: "fst (get_ssh_client w d h) \<noteq> Some ValueError"
  by (simp add: get_ssh_client_def Let_def split: option.splits)

lemma exec_command_not_ValueError: "fst (exec_command d c h) \<noteq> Some ValueError"
  by (simp add: exec_command_def)

lemma exec_sudo_not_ValueError: "fst (exec_sudo u d c h) \<noteq> Some ValueError"
  by (simp add: exec_sudo_def exec_command_not_ValueError split: option.splits)

lemma exec_as_not_ValueError: "fst (exec_as u d c h) \<noteq> Some ValueError"
  by (simp add: exec_as_def and_then_error exec_sudo_not_ValueError exec_command_not_ValueError)

lemma ssh_mkdir_loop_not_ValueError: "fst (ssh_mkdir_loop w ts s h) \<noteq> Some ValueError"
proof (induction ts arbitrary: h)
  case Nil
  show ?case by simp
next
  case (Cons t ts)
  obtain u d r where p: "parse_target t = (u, d, r)" by (cases "parse_target t")
  show ?case
    by (simp add: p and_then_error get_ssh_client_not_ValueError exec_as_not_ValueError Cons.IH)
qed

lemma ssh_mkdir_not_ValueError: "fst (ssh_mkdir w a h) \<noteq> Some ValueError"
  by (simp add: ssh_mkdir_def ssh_mkdir_loop_not_ValueError)

lemma get_scp_client_not_ValueError: "fst (get_scp_client w d h) \<noteq> Some ValueError"
  by (simp add: get_scp_client_def and_then_error get_ssh_client_not_ValueError)

lemma create_parent_not_ValueError:
  "fst (create_parent_dir_if_necessary w d b r h) \<noteq> Some ValueError"
  by (simp add: create_parent_dir_if_necessary_def and_then_error ssh_mkdir_not_ValueError)

lemma scp_put_not_ValueError: "fst (scp_put w d s t h) \<noteq> Some ValueError"
  by (simp add: scp_put_def)

lemma scp_file_loop_not_ValueError: "fst (scp_file_loop w ts ev h) \<noteq> Some ValueError"
proof (induction ts arbitrary: h)
  case Nil
  show ?case by simp
next
  case (Cons t ts)
  obtain u d r where p: "parse_target t = (u, d, r)" by (cases "parse_target t")
  show ?case
    by (simp add: p Let_def and_then_error get_scp_client_not_ValueError
          create_parent_not_ValueError scp_put_not_ValueError get_ssh_client_not_ValueError
          exec_sudo_not_ValueError exec_command_not_ValueError Cons.IH)
qed

lemma scp_file_not_ValueError: "fst (scp_file w ev h) \<noteq> Some ValueError"
  by (simp add: scp_file_def scp_file_loop_not_ValueError)

lemma and_then_assoc:
  "and_then (and_then r f) g = and_then r (\<lambda>h. and_then (f h) g)"
  by (cases r) (auto simp: and_then_def split: option.splits)

lemma ssh_rm_loop_append:
  "ssh_rm_loop w (pre @ rest) ev h = and_then (ssh_rm_loop w pre ev h) (ssh_rm_loop w rest ev)"
proof (induction pre arbitrary: h)
  case Nil
  show ?case by simp
next
  case (Cons t pre)
  show ?case
  proof (cases "parse_target_rm t")
    case (Inl e)
    then show ?thesis by simp
  next
    case (Inr p)
    obtain u d r where p: "p = (u, d, r)" by (cases p)
    have ih: "ssh_rm_loop w (pre @ rest) ev
                = (\<lambda>h. and_then (ssh_rm_loop w pre ev h) (ssh_rm_loop w rest ev))"
      using Cons.IH by (intro ext)
    from Inr p show ?thesis by (simp add: and_then_assoc ih)
  qed
qed

section \<open>Deleting under a descriptor without a host separator\<close>

text \<open>C10, as the specification states it, fails in its last part: a moved event does not
  accept a descriptor without \<^verbatim>\<open>:\<close>. Its first step is the delete, which raises before
  anything is sent.\<close>

theorem moved_raises_counterexample:
  "CHR '':'' \<notin> set ''/r''
   \<and> \<not> skipped (demo_handler\<lparr>targets := [''/r'']\<rparr>)
         \<lparr>src_path = ''/w/a.py'', dest_path = ''/w/b.py'', is_directory = False\<rparr>
   \<and> fst (on_moved demo_world
         \<lparr>src_path = ''/w/a.py'', dest_path = ''/w/b.py'', is_directory = False\<rparr>
         (demo_handler\<lparr>targets := [''/r'']\<rparr>)) = Some ValueError
   \<and> sent (snd (on_moved demo_world
         \<lparr>src_path = ''/w/a.py'', dest_path = ''/w/b.py'', is_directory = False\<rparr>
         (demo_handler\<lparr>targets := [''/r'']\<rparr>))) = []"
  by code_simp

lemma demo_not_skipped:
  "\<not> skipped (demo_handler\<lparr>targets := [''/r'']\<rparr>)
         \<lparr>src_path = ''/w/a.py'', dest_path = ''/w/b.py'', is_directory = False\<rparr>"
  by code_simp

text \<open>C10, amended. Let the target list hold a descriptor without \<^verbatim>\<open>:\<close>. An accepted
  deleted event runs the removal for the targets listed before that descriptor and then
  raises \<open>ValueError\<close> (unless one of those raised already): nothing is sent for the
  descriptor itself or for any target after it, and nothing at all when it comes first.
  An accepted moved event begins with the same delete and ends the same way. Created and
  modified events never raise \<open>ValueError\<close>.\<close>

theorem no_separator_delete_raises:
  assumes "CHR '':'' \<notin> set t" and "targets h = pre @ t # post" and "\<not> skipped h ev"
  shows "on_deleted w ev h = and_then (ssh_rm_loop w pre ev h) (\<lambda>h'. (Some ValueError, h'))
       \<and> on_moved w ev h
           = and_then (ssh_rm_loop w pre (FileDeletedEvent (src_path ev)) h)
               (\<lambda>h'. (Some ValueError, h'))
       \<and> fst (on_created w ev h) \<noteq> Some ValueError
       \<and> fst (on_modified w ev h) \<noteq> Some ValueError"
proof -
  have g: "git_hook e h = h" for e by (simp add: git_hook_def on_git_event_def)
  have stop: "ssh_rm_loop w (t # post) e h' = (Some ValueError, h')" for e h'
    using assms(1) by (simp add: parse_target_rm_def)
  have rm: "ssh_rm w e h = and_then (ssh_rm_loop w pre e h) (\<lambda>h'. (Some ValueError, h'))" for e
    unfolding ssh_rm_def assms(2) ssh_rm_loop_append using stop by presburger
  have sk: "\<not> skipped h (FileDeletedEvent (src_path ev))"
    using assms(3) by (simp add: skipped_def is_bad_path_def FileDeletedEvent_def)
  have del: "on_deleted w e h = and_then (ssh_rm_loop w pre e h) (\<lambda>h'. (Some ValueError, h'))"
    if "\<not> skipped h e" for e
    using that by (simp add: on_deleted_def g rm)
  have mv: "on_moved w ev h
      = and_then (ssh_rm_loop w pre (FileDeletedEvent (src_path ev)) h)
          (\<lambda>h'. (Some ValueError, h'))"
    using assms(3) by (simp add: on_moved_def g del [OF sk] and_then_assoc)
  have cr: "fst (on_created w ev h) \<noteq> Some ValueError"
    by (simp add: on_created_def g ssh_mkdir_not_ValueError scp_file_not_ValueError)
  have md: "fst (on_modified w ev h) \<noteq> Some ValueError"
    by (simp add: on_modified_def g scp_file_not_ValueError)
  from del [OF assms(3)] mv cr md show ?thesis by simp
qed

theorem no_separator_delete_raises_witness:
  "CHR '':'' \<notin> set ''/r''
   \<and> targets (demo_handler\<lparr>targets := [''/r'']\<rparr>) = [] @ ''/r'' # []
   \<and> \<not> skipped (demo_handler\<lparr>targets := [''/r'']\<rparr>)
         \<lparr>src_path = ''/w/a.py'', dest_path = ''/w/b.py'', is_directory = False\<rparr>
   \<and> on_deleted demo_world
         \<lparr>src_path = ''/w/a.py'', dest_path = ''/w/b.py'', is_directory = False\<rparr>
         (demo_handler\<lparr>targets := [''/r'']\<rparr>)
       = (Some ValueError, demo_handler\<lparr>targets := [''/r'']\<rparr>)"
  using no_separator_delete_raises [of "''/r''" "demo_handler\<lparr>targets := [''/r'']\<rparr>" "[]" "[]"
      "\<lparr>src_path = ''/w/a.py'', dest_path = ''/w/b.py'', is_directory = False\<rparr>" demo_world]
    demo_not_skipped
  by simp

section \<open>Path mapping\<close>

text \<open>C2. With watch root \<^verbatim>\<open>/w/\<close> and remote root \<^verbatim>\<open>/r/\<close>, the file
  \<^verbatim>\<open>/w/src/a.py\<close> is mapped to \<^verbatim>\<open>/r/src/a.py\<close>, but the file \<^verbatim>\<open>/w/a/w/b.py\<close> is
  mapped to \<^verbatim>\<open>/r/ab.py\<close>: the watch root is taken out wherever it occurs in the local
  path, not only at its head.\<close>

theorem mapping_failing_input:
  "host_directory demo_handler = ''/w/''
   \<and> target_path demo_handler ''/r/'' ''/w/src/a.py'' = ''/r/src/a.py''
   \<and> target_path demo_handler ''/r/'' ''/w/a/w/b.py'' = ''/r/ab.py''"
  by code_simp

end
